theory Spec2Isabelle
  imports Complex_Main "HOL-Library.AList"
begin

section \<open>AquaTrack: synthetic data generator and alert detection\<close>

text \<open>
  A shallow embedding of \<^verbatim>\<open>generate_data.py\<close> and of the alert detection of
  \<^verbatim>\<open>dashboard_app.py\<close>.

  Conventions of the model.
  \<^item> A naive \<^verbatim>\<open>datetime\<close> is an \<open>int\<close>: the number of microseconds since
    2025-01-01 00:00:00 (a midnight, so that day arithmetic is plain division). A
    \<^verbatim>\<open>timedelta\<close> is an \<open>int\<close> number of microseconds, which is its own resolution.
    The year range of \<^verbatim>\<open>datetime\<close> (1 to 9999) is not modelled.
  \<^item> A Python or numpy float is a \<open>real\<close>: binary rounding error, overflow and the
    sign of zero are not modelled. The results of the divisions that numpy performs
    without raising (\<open>x / 0\<close> is an infinity or NaN there) are values of \<open>fval\<close>.
  \<^item> The global numpy generator is a stream of standard normal draws with a read
    position, passed explicitly through every function that draws noise.
\<close>

subsection \<open>Time\<close>

definition SECOND :: int where "SECOND = 1000000"
definition MINUTE :: int where "MINUTE = 60 * SECOND"
definition HOUR :: int where "HOUR = 60 * MINUTE"
definition DAY :: int where "DAY = 24 * HOUR"

text \<open>\<^verbatim>\<open>ts.hour\<close>\<close>

definition hour_of :: "int \<Rightarrow> int" where
  "hour_of ts = (ts mod DAY) div HOUR"

text \<open>
  \<^verbatim>\<open>ts.replace(hour=14, minute=0, second=0)\<close>: the date and the microsecond field are
  kept.
\<close>

definition replace_14h :: "int \<Rightarrow> int" where
  "replace_14h ts = (ts div DAY) * DAY + 14 * HOUR + ts mod SECOND"

subsection \<open>Global parameters\<close>

definition START_DATE :: int where "START_DATE = 0"
definition DAYS :: int where "DAYS = 30"
definition INTERVAL_MINUTES :: int where "INTERVAL_MINUTES = 5"
definition TOTAL_POINTS :: nat where
  "TOTAL_POINTS = nat (DAYS * 24 * (60 div INTERVAL_MINUTES))"

definition PRODUCTION_NOMINAL :: real where "PRODUCTION_NOMINAL = 1000"
definition PRODUCTION_NIGHT_FACTOR :: real where "PRODUCTION_NIGHT_FACTOR = 7 / 10"
definition INLET_FLOW_BASE :: real where "INLET_FLOW_BASE = 1450"
definition TREATMENT_LOSS_PCT :: real where "TREATMENT_LOSS_PCT = 15"
definition RINSE_FLOW_BASE :: real where "RINSE_FLOW_BASE = 185"
definition CIP_FLOW_RATE :: real where "CIP_FLOW_RATE = 1000"
definition CONDUCTIVITY_MEAN :: real where "CONDUCTIVITY_MEAN = 245"
definition TURBIDITY_MEAN :: real where "TURBIDITY_MEAN = 6 / 10"
definition TEMPERATURE_MEAN :: real where "TEMPERATURE_MEAN = 22"

text \<open>\<^verbatim>\<open>timedelta(hours=CIP_DURATION_HOURS)\<close> with \<^verbatim>\<open>CIP_DURATION_HOURS = 1.5\<close>\<close>

definition CIP_DURATION :: int where "CIP_DURATION = 90 * MINUTE"

text \<open>\<^verbatim>\<open>timedelta(days=CIP_FREQUENCY_DAYS)\<close> with \<^verbatim>\<open>CIP_FREQUENCY_DAYS = 3.5\<close>\<close>

definition CIP_FREQUENCY :: int where "CIP_FREQUENCY = 84 * HOUR"

subsection \<open>The CIP schedule\<close>

type_synonym interval = "int \<times> int"

text \<open>
  The \<^verbatim>\<open>while\<close> loop of \<^verbatim>\<open>generate_cip_schedule\<close>. With a recurrence period that is
  not positive the loop of the source never ends; here that is the value \<open>None\<close>.
\<close>

partial_function (option) cip_loop ::
  "int \<Rightarrow> int \<Rightarrow> int \<Rightarrow> interval list \<Rightarrow> interval list option" where
  "cip_loop horizon_end frequency current_date cip_schedule =
     (if current_date < horizon_end then
        (let cip_start = replace_14h current_date;
             cip_end = cip_start + CIP_DURATION
         in cip_loop horizon_end frequency (current_date + frequency)
              (if cip_start < horizon_end then cip_schedule @ [(cip_start, cip_end)]
               else cip_schedule))
      else Some cip_schedule)"

text \<open>
  \<^verbatim>\<open>generate_cip_schedule(start_date, days, frequency_days)\<close>; \<open>frequency\<close> is
  \<^verbatim>\<open>timedelta(days=frequency_days)\<close>.
\<close>

definition generate_cip_schedule :: "int \<Rightarrow> int \<Rightarrow> int \<Rightarrow> interval list option" where
  "generate_cip_schedule start_date days frequency =
     cip_loop (start_date + days * DAY) frequency start_date []"

text \<open>Two half-open intervals \<open>[s, e)\<close> share no instant.\<close>

definition disjoint_iv :: "interval \<Rightarrow> interval \<Rightarrow> bool" where
  "disjoint_iv p q = (snd p \<le> fst q \<or> snd q \<le> fst p)"

fun non_overlapping :: "interval list \<Rightarrow> bool" where
  "non_overlapping [] = True"
| "non_overlapping (p # ps) = ((\<forall>q \<in> set ps. disjoint_iv p q) \<and> non_overlapping ps)"


text \<open>What every entry of a schedule for the horizon end \<open>e\<close> satisfies.\<close>

definition entry_ok :: "int \<Rightarrow> interval \<Rightarrow> bool" where
  "entry_ok e p = (snd p = fst p + CIP_DURATION \<and> fst p < e)"

subsection \<open>Floats that may be infinite or undefined\<close>

datatype fval = Num real | PosInf | NegInf | NaN

text \<open>numpy's float division \<open>a / b\<close>, which never raises.\<close>

definition fdiv :: "real \<Rightarrow> real \<Rightarrow> fval" where
  "fdiv a b =
     (if b \<noteq> 0 then Num (a / b)
      else if 0 < a then PosInf else if a < 0 then NegInf else NaN)"

text \<open>\<open>v * c\<close> for a finite \<open>c\<close>.\<close>

fun fmul :: "fval \<Rightarrow> real \<Rightarrow> fval" where
  "fmul (Num a) c = Num (a * c)"
| "fmul PosInf c = (if 0 < c then PosInf else if c < 0 then NegInf else NaN)"
| "fmul NegInf c = (if 0 < c then NegInf else if c < 0 then PosInf else NaN)"
| "fmul NaN c = NaN"

text \<open>\<open>v > c\<close> and \<open>v < c\<close>: every comparison with NaN is false.\<close>

fun fgt :: "fval \<Rightarrow> real \<Rightarrow> bool" where
  "fgt (Num a) c = (c < a)"
| "fgt PosInf c = True"
| "fgt NegInf c = False"
| "fgt NaN c = False"

fun flt :: "fval \<Rightarrow> real \<Rightarrow> bool" where
  "flt (Num a) c = (a < c)"
| "flt PosInf c = False"
| "flt NegInf c = True"
| "flt NaN c = False"

fun isnull :: "fval \<Rightarrow> bool" where
  "isnull NaN = True"
| "isnull v = False"

text \<open>
  \<^verbatim>\<open>round(x, nd)\<close> and \<^verbatim>\<open>Series.round(nd)\<close>: to \<open>nd\<close> decimals, a tie going to the even
  neighbour.
\<close>

definition round_half_even :: "real \<Rightarrow> int" where
  "round_half_even x =
     (let f = \<lfloor>x\<rfloor>; r = x - of_int f
      in if r < 1 / 2 then f else if 1 / 2 < r then f + 1
         else if even f then f else f + 1)"

definition py_round :: "nat \<Rightarrow> real \<Rightarrow> real" where
  "py_round nd x = of_int (round_half_even (x * 10 ^ nd)) / 10 ^ nd"

fun fround :: "nat \<Rightarrow> fval \<Rightarrow> fval" where
  "fround nd (Num a) = Num (py_round nd a)"
| "fround nd v = v"

subsection \<open>Samples and frames\<close>

datatype shift = morning | afternoon | night
datatype line_status = running | stopped
datatype scenario = baseline | anomaly | optimized

text \<open>One row of the generated \<^verbatim>\<open>DataFrame\<close>, a field per column of the \<^verbatim>\<open>data\<close> dict.\<close>

record sample =
  timestamp :: int
  scenario :: scenario
  inlet_flow_lph :: real
  post_treatment_flow_lph :: real
  rinse_flow_lph :: real
  cip_flow_lph :: real
  production_lph :: real
  conductivity_uS_cm :: real
  turbidity_NTU :: real
  temperature_C :: real
  cip_active :: int
  shift :: shift
  line_status :: line_status
  wur :: fval

text \<open>
  A \<^verbatim>\<open>DataFrame\<close>: the rows over the fourteen generated columns, and the columns
  assigned later by name, in the order of their first assignment.
\<close>

record frame =
  rows :: "sample list"
  extra :: "(string \<times> fval list) list"

definition base_columns :: "string list" where
  "base_columns = [''timestamp'', ''scenario'', ''inlet_flow_lph'',
     ''post_treatment_flow_lph'', ''rinse_flow_lph'', ''cip_flow_lph'', ''production_lph'',
     ''conductivity_uS_cm'', ''turbidity_NTU'', ''temperature_C'', ''cip_active'', ''shift'',
     ''line_status'', ''wur'']"

definition columns :: "frame \<Rightarrow> string list" where
  "columns df = base_columns @ map fst (extra df)"

text \<open>\<^verbatim>\<open>df[name] = values\<close> for a name outside the generated columns.\<close>

definition set_column :: "string \<Rightarrow> fval list \<Rightarrow> frame \<Rightarrow> frame" where
  "set_column name vs df = df\<lparr>extra := AList.update name vs (extra df)\<rparr>"

text \<open>
  \<^verbatim>\<open>df.loc[mask, ...] = ...\<close>: the assignment acts row by row, on the rows of the mask.
  \<^verbatim>\<open>df[...] = ...\<close> is the mask of all rows.
\<close>

definition row_update :: "(sample \<Rightarrow> bool) \<Rightarrow> (sample \<Rightarrow> sample) \<Rightarrow> sample \<Rightarrow> sample" where
  "row_update msk f r = (if msk r then f r else r)"

definition loc_update :: "(sample \<Rightarrow> bool) \<Rightarrow> (sample \<Rightarrow> sample) \<Rightarrow> frame \<Rightarrow> frame" where
  "loc_update msk f df = df\<lparr>rows := map (row_update msk f) (rows df)\<rparr>"

definition all_rows :: "sample \<Rightarrow> bool" where
  "all_rows r = True"

text \<open>\<^verbatim>\<open>(df['timestamp'] >= s) & (df['timestamp'] < e)\<close>\<close>

definition in_window :: "int \<Rightarrow> int \<Rightarrow> sample \<Rightarrow> bool" where
  "in_window s e r = (s \<le> timestamp r \<and> timestamp r < e)"

subsection \<open>The noise source\<close>

record rng =
  draws :: "nat \<Rightarrow> real"
  pos :: nat

text \<open>\<^verbatim>\<open>np.random.normal(loc, scale)\<close>: the next standard normal draw, scaled and shifted.\<close>

definition normal :: "real \<Rightarrow> real \<Rightarrow> rng \<Rightarrow> real \<times> rng" where
  "normal loc scale g = (loc + scale * draws g (pos g), g\<lparr>pos := Suc (pos g)\<rparr>)"

definition add_noise :: "real \<Rightarrow> real \<Rightarrow> rng \<Rightarrow> real \<times> rng" where
  "add_noise v factor g = (let (n, g') = normal 0 factor g in (v * (1 + n), g'))"

subsection \<open>The baseline generator\<close>

definition get_shift :: "int \<Rightarrow> shift" where
  "get_shift hour =
     (if 6 \<le> hour \<and> hour < 14 then morning
      else if 14 \<le> hour \<and> hour < 22 then afternoon
      else night)"

fun is_cip_time :: "int \<Rightarrow> interval list \<Rightarrow> bool" where
  "is_cip_time ts [] = False"
| "is_cip_time ts ((cip_start, cip_end) # cip_schedule) =
     (if cip_start \<le> ts \<and> ts < cip_end then True else is_cip_time ts cip_schedule)"

text \<open>The body of the \<^verbatim>\<open>for ts in timestamps\<close> loop of \<^verbatim>\<open>generate_baseline_data\<close>.\<close>

definition baseline_step :: "interval list \<Rightarrow> int \<Rightarrow> rng \<Rightarrow> sample \<times> rng" where
  "baseline_step cip_schedule ts g0 =
     (let hour = hour_of ts;
          shift = get_shift hour;
          production = (if shift = night then PRODUCTION_NOMINAL * PRODUCTION_NIGHT_FACTOR
                        else PRODUCTION_NOMINAL);
          (production, g1) = add_noise production (3 / 100) g0;
          cip_active = is_cip_time ts cip_schedule;
          (cip_flow, inlet_flow, rinse_flow, production) =
            (if cip_active
             then (CIP_FLOW_RATE, INLET_FLOW_BASE + CIP_FLOW_RATE, RINSE_FLOW_BASE * (5 / 10),
                   production * (8 / 10))
             else (0, INLET_FLOW_BASE, RINSE_FLOW_BASE, production));
          (inlet_flow, g2) = add_noise inlet_flow (4 / 100) g1;
          (rinse_flow, g3) = add_noise rinse_flow (6 / 100) g2;
          post_treatment_flow = inlet_flow * (1 - TREATMENT_LOSS_PCT / 100);
          (post_treatment_flow, g4) = add_noise post_treatment_flow (3 / 100) g3;
          (conductivity, g5) = add_noise CONDUCTIVITY_MEAN (2 / 100) g4;
          (turbidity_raw, g6) = add_noise TURBIDITY_MEAN (15 / 100) g5;
          turbidity = max (1 / 10) turbidity_raw;
          (temperature, g7) = add_noise TEMPERATURE_MEAN (5 / 100) g6;
          wur = (if production > 0 then inlet_flow / production else 0);
          line_status = (if production > 500 then running else stopped)
      in (\<lparr>timestamp = ts, scenario = baseline,
            inlet_flow_lph = py_round 2 inlet_flow,
            post_treatment_flow_lph = py_round 2 post_treatment_flow,
            rinse_flow_lph = py_round 2 rinse_flow,
            cip_flow_lph = py_round 2 cip_flow,
            production_lph = py_round 2 production,
            conductivity_uS_cm = py_round 2 conductivity,
            turbidity_NTU = py_round 2 turbidity,
            temperature_C = py_round 1 temperature,
            cip_active = (if cip_active then 1 else 0),
            shift = shift, line_status = line_status,
            wur = Num (py_round 3 wur)\<rparr>, g7))"

fun baseline_loop :: "interval list \<Rightarrow> int list \<Rightarrow> rng \<Rightarrow> sample list \<times> rng" where
  "baseline_loop cip_schedule [] g = ([], g)"
| "baseline_loop cip_schedule (ts # tss) g =
     (let (r, g') = baseline_step cip_schedule ts g;
          (rs, g'') = baseline_loop cip_schedule tss g'
      in (r # rs, g''))"

definition timestamps :: "int list" where
  "timestamps = map (\<lambda>i. START_DATE + INTERVAL_MINUTES * MINUTE * int i) [0..<TOTAL_POINTS]"

text \<open>
  \<^verbatim>\<open>generate_baseline_data()\<close>, from the state of the global generator at the call. The
  printed statistics are left out.
\<close>

definition generate_baseline_data :: "rng \<Rightarrow> (frame \<times> rng) option" where
  "generate_baseline_data g =
     (case generate_cip_schedule START_DATE DAYS CIP_FREQUENCY of
        None \<Rightarrow> None
      | Some cip_schedule \<Rightarrow>
          (let (rs, g') = baseline_loop cip_schedule timestamps g
           in Some (\<lparr>rows = rs, extra = []\<rparr>, g')))"

subsection \<open>The anomaly and optimized scenarios\<close>

text \<open>The three windows of \<^verbatim>\<open>generate_anomaly_data\<close>, local variables there.\<close>

definition leak_start :: int where "leak_start = START_DATE + 15 * DAY + 14 * HOUR"
definition leak_end :: int where "leak_end = START_DATE + 15 * DAY + 22 * HOUR"
definition overrinse_start :: int where "overrinse_start = START_DATE + 21 * DAY + 9 * HOUR"
definition overrinse_end :: int where "overrinse_end = START_DATE + 21 * DAY + 17 * HOUR"
definition unplanned_cip_start :: int where
  "unplanned_cip_start = START_DATE + 27 * DAY + 15 * HOUR + 30 * MINUTE"
definition unplanned_cip_end :: int where
  "unplanned_cip_end = unplanned_cip_start + CIP_DURATION"

text \<open>\<^verbatim>\<open>generate_anomaly_data()\<close>: it calls \<^verbatim>\<open>generate_baseline_data()\<close> itself.\<close>

definition generate_anomaly_data :: "rng \<Rightarrow> (frame \<times> rng) option" where
  "generate_anomaly_data g =
     (case generate_baseline_data g of
        None \<Rightarrow> None
      | Some (df, g') \<Rightarrow>
          (let df = loc_update all_rows (\<lambda>r. r\<lparr>scenario := anomaly\<rparr>) df;
               leak_mask = in_window leak_start leak_end;
               df = loc_update leak_mask
                      (\<lambda>r. r\<lparr>inlet_flow_lph := inlet_flow_lph r * (120 / 100)\<rparr>) df;
               overrinse_mask = in_window overrinse_start overrinse_end;
               df = loc_update overrinse_mask
                      (\<lambda>r. r\<lparr>rinse_flow_lph := rinse_flow_lph r * (150 / 100)\<rparr>) df;
               df = loc_update overrinse_mask
                      (\<lambda>r. r\<lparr>inlet_flow_lph := inlet_flow_lph r + rinse_flow_lph r * (3 / 10)\<rparr>) df;
               unplanned_cip_mask = in_window unplanned_cip_start unplanned_cip_end;
               df = loc_update unplanned_cip_mask (\<lambda>r. r\<lparr>cip_flow_lph := CIP_FLOW_RATE\<rparr>) df;
               df = loc_update unplanned_cip_mask (\<lambda>r. r\<lparr>cip_active := 1\<rparr>) df;
               df = loc_update unplanned_cip_mask
                      (\<lambda>r. r\<lparr>inlet_flow_lph := inlet_flow_lph r + CIP_FLOW_RATE\<rparr>) df;
               df = loc_update unplanned_cip_mask
                      (\<lambda>r. r\<lparr>production_lph := production_lph r * (8 / 10)\<rparr>) df;
               df = loc_update all_rows
                      (\<lambda>r. r\<lparr>wur := fdiv (inlet_flow_lph r) (production_lph r)\<rparr>) df;
               df = loc_update all_rows (\<lambda>r. r\<lparr>wur := fround 3 (wur r)\<rparr>) df
           in Some (df, g')))"

text \<open>\<^verbatim>\<open>generate_optimized_data()\<close>: it too calls \<^verbatim>\<open>generate_baseline_data()\<close> itself.\<close>

definition generate_optimized_data :: "rng \<Rightarrow> (frame \<times> rng) option" where
  "generate_optimized_data g =
     (case generate_baseline_data g of
        None \<Rightarrow> None
      | Some (df, g') \<Rightarrow>
          (let df = loc_update all_rows (\<lambda>r. r\<lparr>scenario := optimized\<rparr>) df;
               df = loc_update all_rows
                      (\<lambda>r. r\<lparr>rinse_flow_lph := rinse_flow_lph r * (75 / 100)\<rparr>) df;
               improvement_factor = (100 - 12) / (100 - 15);
               df = loc_update all_rows
                      (\<lambda>r. r\<lparr>post_treatment_flow_lph :=
                                 post_treatment_flow_lph r * improvement_factor\<rparr>) df;
               df = loc_update all_rows
                      (\<lambda>r. r\<lparr>inlet_flow_lph := inlet_flow_lph r * (97 / 100)\<rparr>) df;
               df = loc_update (\<lambda>r. cip_active r = 1)
                      (\<lambda>r. r\<lparr>cip_flow_lph := cip_flow_lph r * (90 / 100)\<rparr>) df;
               df = loc_update (\<lambda>r. cip_active r = 1)
                      (\<lambda>r. r\<lparr>inlet_flow_lph := inlet_flow_lph r - cip_flow_lph r * (1 / 10)\<rparr>) df;
               df = loc_update all_rows
                      (\<lambda>r. r\<lparr>inlet_flow_lph := inlet_flow_lph r * (90 / 100)\<rparr>) df;
               df = loc_update all_rows
                      (\<lambda>r. r\<lparr>wur := fdiv (inlet_flow_lph r) (production_lph r)\<rparr>) df;
               df = loc_update all_rows (\<lambda>r. r\<lparr>wur := fround 3 (wur r)\<rparr>) df
           in Some (df, g')))"


subsection \<open>Validation, export and the main function\<close>

datatype finding =
  WUR_out_of_range | Production_out_of_range | Conductivity_out_of_range
| Mass_balance nat | Missing_values

text \<open>
  \<^verbatim>\<open>validate_dataset(df, scenario_name)\<close>. The frame is mutated in place by the two
  column assignments, so the model returns it beside the result. The name is only
  printed.
\<close>

definition validate_dataset :: "frame \<Rightarrow> string \<Rightarrow> bool \<times> frame" where
  "validate_dataset df scenario_name =
     (let errors = [];
          warnings = [];
          errors = (if (\<exists>r \<in> set (rows df). flt (wur r) 1) \<or> (\<exists>r \<in> set (rows df). fgt (wur r) 3)
                    then errors @ [WUR_out_of_range] else errors);
          errors = (if (\<exists>r \<in> set (rows df). production_lph r < 0)
                       \<or> (\<exists>r \<in> set (rows df). production_lph r > 1500)
                    then errors @ [Production_out_of_range] else errors);
          warnings = (if (\<exists>r \<in> set (rows df). conductivity_uS_cm r < 100)
                         \<or> (\<exists>r \<in> set (rows df). conductivity_uS_cm r > 400)
                      then warnings @ [Conductivity_out_of_range] else warnings);
          total_out = map (\<lambda>r. post_treatment_flow_lph r + rinse_flow_lph r + cip_flow_lph r)
                        (rows df);
          df = set_column ''total_out'' (map Num total_out) df;
          balance_error = map (\<lambda>(r, t). fdiv \<bar>inlet_flow_lph r - t\<bar> (inlet_flow_lph r))
                            (zip (rows df) total_out);
          df = set_column ''balance_error'' balance_error df;
          high_error = length (filter (\<lambda>b. fgt b (30 / 100)) balance_error);
          warnings = (if real high_error > real (length (rows df)) * (5 / 100)
                      then warnings @ [Mass_balance high_error] else warnings);
          errors = (if (\<exists>r \<in> set (rows df). isnull (wur r))
                       \<or> (\<exists>c \<in> set (extra df). \<exists>v \<in> set (snd c). isnull v)
                    then errors @ [Missing_values] else errors)
      in (length errors = 0, df))"

text \<open>
  \<^verbatim>\<open>export_to_csv(df, filename)\<close>: the file holds the header line, one name per column of
  the frame, and the frame.
\<close>

type_synonym files = "string \<rightharpoonup> string list \<times> frame"

definition export_to_csv :: "frame \<Rightarrow> string \<Rightarrow> files \<Rightarrow> files" where
  "export_to_csv df filename fs = fs(filename \<mapsto> (columns df, df))"

text \<open>\<^verbatim>\<open>main()\<close>, from the generator state left by the seeding at import.\<close>

definition main :: "rng \<Rightarrow> files \<Rightarrow> (files \<times> rng) option" where
  "main g fs =
     (case generate_baseline_data g of
        None \<Rightarrow> None
      | Some (df_baseline, g) \<Rightarrow>
     (case generate_anomaly_data g of
        None \<Rightarrow> None
      | Some (df_anomaly, g) \<Rightarrow>
     (case generate_optimized_data g of
        None \<Rightarrow> None
      | Some (df_optimized, g) \<Rightarrow>
          (let (_, df_baseline) = validate_dataset df_baseline ''baseline'';
               (_, df_anomaly) = validate_dataset df_anomaly ''anomaly'';
               (_, df_optimized) = validate_dataset df_optimized ''optimized'';
               fs = export_to_csv df_baseline ''baseline.csv'' fs;
               fs = export_to_csv df_anomaly ''anomaly.csv'' fs;
               fs = export_to_csv df_optimized ''optimized.csv'' fs
           in Some (fs, g)))))"

subsection \<open>Alert detection (dashboard)\<close>

datatype alert_type = WUR_Critique | WUR_Eleve | Fuite_Suspectee | Sur_rincage
datatype severity = HIGH | MEDIUM
datatype py_error = IndexError

text \<open>
  An alert dict. The message is its format string (accents dropped) and the number
  formatted into it.
\<close>

record alert =
  a_type :: alert_type
  a_severity :: severity
  a_message :: "string \<times> fval"
  a_time :: int

text \<open>\<^verbatim>\<open>xs.iloc[i:j]\<close>, with Python's reading of negative and out-of-range bounds.\<close>

definition iloc_slice :: "int \<Rightarrow> int \<Rightarrow> 'a list \<Rightarrow> 'a list" where
  "iloc_slice i j xs =
     (let n = int (length xs);
          a = (if i < 0 then max (n + i) 0 else min i n);
          b = (if j < 0 then max (n + j) 0 else min j n)
      in take (nat (b - a)) (drop (nat a) xs))"

text \<open>\<^verbatim>\<open>Series.mean()\<close>: NaN on an empty series.\<close>

definition series_mean :: "real list \<Rightarrow> fval" where
  "series_mean xs = (if xs = [] then NaN else Num (sum_list xs / real (length xs)))"

text \<open>
  \<^verbatim>\<open>detect_alerts(df_current)\<close>, on the rows of the frame. \<^verbatim>\<open>iloc[-1]\<close> raises
  \<^verbatim>\<open>IndexError\<close> on an empty frame.
\<close>

definition detect_alerts :: "sample list \<Rightarrow> py_error + alert list" where
  "detect_alerts df_current =
     (if df_current = [] then Inl IndexError
      else
        (let latest = last df_current;
             alerts = [];
             alerts =
               (if fgt (wur latest) (185 / 100) then
                  alerts @ [\<lparr>a_type = WUR_Critique, a_severity = HIGH,
                             a_message = (''WUR actuel : {:.2f} L/L (> 1.85)'', wur latest),
                             a_time = timestamp latest\<rparr>]
                else if fgt (wur latest) (170 / 100) then
                  alerts @ [\<lparr>a_type = WUR_Eleve, a_severity = MEDIUM,
                             a_message = (''WUR actuel : {:.2f} L/L (> 1.70)'', wur latest),
                             a_time = timestamp latest\<rparr>]
                else alerts);
             alerts =
               (if length df_current > 12 then
                  (let baseline_inlet =
                         series_mean (map inlet_flow_lph (iloc_slice (- 13) (- 1) df_current));
                       current_inlet = inlet_flow_lph latest;
                       deviation =
                         (case baseline_inlet of
                            Num b \<Rightarrow> fmul (fdiv (current_inlet - b) b) 100
                          | _ \<Rightarrow> NaN)
                   in if fgt deviation 15 then
                        alerts @ [\<lparr>a_type = Fuite_Suspectee, a_severity = HIGH,
                                   a_message =
                                     (''Debit entree +{:.1f}% vs moyenne (fuite possible)'',
                                      deviation),
                                   a_time = timestamp latest\<rparr>]
                      else alerts)
                else alerts);
             alerts =
               (if rinse_flow_lph latest > 250 then
                  alerts @ [\<lparr>a_type = Sur_rincage, a_severity = MEDIUM,
                             a_message = (''Debit rincage : {:.0f} L/h (> 250)'',
                                          Num (rinse_flow_lph latest)),
                             a_time = timestamp latest\<rparr>]
                else alerts)
         in Inr alerts))"

text \<open>
  The alert section of the dashboard page, the only caller of \<^verbatim>\<open>detect_alerts\<close>: below
  thirteen rows it shows the notice that data is being collected.
\<close>

datatype panel = Alert_boxes "alert list" | Success_box | Collecting_info

definition alerts_section :: "sample list \<Rightarrow> py_error + panel" where
  "alerts_section df_current =
     (if length df_current > 12 then
        (case detect_alerts df_current of
           Inl e \<Rightarrow> Inl e
         | Inr alerts \<Rightarrow> if length alerts > 0 then Inr (Alert_boxes alerts) else Inr Success_box)
      else Inr Collecting_info)"

subsection \<open>Derived forms used in the proofs\<close>

text \<open>The schedule that \<^verbatim>\<open>generate_cip_schedule(START_DATE, DAYS)\<close> computes.\<close>

definition configured_schedule :: "interval list" where
  "configured_schedule =
     map (\<lambda>d. (d * DAY + 14 * HOUR, d * DAY + 14 * HOUR + CIP_DURATION))
       [0, 3, 7, 10, 14, 17, 21, 24, 28]"

text \<open>
  The row of index \<open>i\<close> of a baseline generated from the state \<open>g\<close>: the loop body at the
  timestamp of that index, reading the seven draws that follow the \<open>7 * i\<close> draws of the
  earlier rows.
\<close>

definition baseline_row :: "rng \<Rightarrow> nat \<Rightarrow> sample" where
  "baseline_row g i =
     fst (baseline_step configured_schedule (START_DATE + INTERVAL_MINUTES * MINUTE * int i)
            (g\<lparr>pos := pos g + 7 * i\<rparr>))"

text \<open>What the column assignments of \<^verbatim>\<open>generate_anomaly_data\<close> do to one row, in order.\<close>

definition anomaly_row :: "sample \<Rightarrow> sample" where
  "anomaly_row =
     row_update all_rows (\<lambda>r. r\<lparr>wur := fround 3 (wur r)\<rparr>)
     \<circ> row_update all_rows (\<lambda>r. r\<lparr>wur := fdiv (inlet_flow_lph r) (production_lph r)\<rparr>)
     \<circ> row_update (in_window unplanned_cip_start unplanned_cip_end)
         (\<lambda>r. r\<lparr>production_lph := production_lph r * (8 / 10)\<rparr>)
     \<circ> row_update (in_window unplanned_cip_start unplanned_cip_end)
         (\<lambda>r. r\<lparr>inlet_flow_lph := inlet_flow_lph r + CIP_FLOW_RATE\<rparr>)
     \<circ> row_update (in_window unplanned_cip_start unplanned_cip_end) (\<lambda>r. r\<lparr>cip_active := 1\<rparr>)
     \<circ> row_update (in_window unplanned_cip_start unplanned_cip_end)
         (\<lambda>r. r\<lparr>cip_flow_lph := CIP_FLOW_RATE\<rparr>)
     \<circ> row_update (in_window overrinse_start overrinse_end)
         (\<lambda>r. r\<lparr>inlet_flow_lph := inlet_flow_lph r + rinse_flow_lph r * (3 / 10)\<rparr>)
     \<circ> row_update (in_window overrinse_start overrinse_end)
         (\<lambda>r. r\<lparr>rinse_flow_lph := rinse_flow_lph r * (150 / 100)\<rparr>)
     \<circ> row_update (in_window leak_start leak_end)
         (\<lambda>r. r\<lparr>inlet_flow_lph := inlet_flow_lph r * (120 / 100)\<rparr>)
     \<circ> row_update all_rows (\<lambda>r. r\<lparr>scenario := anomaly\<rparr>)"

text \<open>What the column assignments of \<^verbatim>\<open>generate_optimized_data\<close> do to one row, in order.\<close>

definition optimized_row :: "sample \<Rightarrow> sample" where
  "optimized_row =
     row_update all_rows (\<lambda>r. r\<lparr>wur := fround 3 (wur r)\<rparr>)
     \<circ> row_update all_rows (\<lambda>r. r\<lparr>wur := fdiv (inlet_flow_lph r) (production_lph r)\<rparr>)
     \<circ> row_update all_rows (\<lambda>r. r\<lparr>inlet_flow_lph := inlet_flow_lph r * (90 / 100)\<rparr>)
     \<circ> row_update (\<lambda>r. cip_active r = 1)
         (\<lambda>r. r\<lparr>inlet_flow_lph := inlet_flow_lph r - cip_flow_lph r * (1 / 10)\<rparr>)
     \<circ> row_update (\<lambda>r. cip_active r = 1)
         (\<lambda>r. r\<lparr>cip_flow_lph := cip_flow_lph r * (90 / 100)\<rparr>)
     \<circ> row_update all_rows (\<lambda>r. r\<lparr>inlet_flow_lph := inlet_flow_lph r * (97 / 100)\<rparr>)
     \<circ> row_update all_rows
         (\<lambda>r. r\<lparr>post_treatment_flow_lph := post_treatment_flow_lph r * ((100 - 12) / (100 - 15))\<rparr>)
     \<circ> row_update all_rows (\<lambda>r. r\<lparr>rinse_flow_lph := rinse_flow_lph r * (75 / 100)\<rparr>)
     \<circ> row_update all_rows (\<lambda>r. r\<lparr>scenario := optimized\<rparr>)"


subsection \<open>The leak rule in the words of the specification\<close>

text \<open>
  The mean inlet flow of the twelve samples immediately before the latest one, and the
  percentage deviation of the latest inlet flow from it.
\<close>

definition trailing_mean :: "sample list \<Rightarrow> real" where
  "trailing_mean df = (\<Sum>i = length df - 13..<length df - 1. inlet_flow_lph (df ! i)) / 12"

definition leak_deviation :: "sample list \<Rightarrow> fval" where
  "leak_deviation df =
     fmul (fdiv (inlet_flow_lph (last df) - trailing_mean df) (trailing_mean df)) 100"

subsection \<open>Concrete inputs\<close>

text \<open>A night sample with a water-use ratio of 1.90.\<close>

definition one_sample :: sample where
  "one_sample = \<lparr>timestamp = 0, scenario = baseline, inlet_flow_lph = 1330,
     post_treatment_flow_lph = 1130, rinse_flow_lph = 185, cip_flow_lph = 0,
     production_lph = 700, conductivity_uS_cm = 245, turbidity_NTU = 6 / 10,
     temperature_C = 22, cip_active = 0, shift = night, line_status = running,
     wur = Num (19 / 10)\<rparr>"

text \<open>Twelve samples with an inlet flow of 1000 and a latest one with 2000.\<close>

definition leak_frame :: "sample list" where
  "leak_frame = replicate 12 (one_sample\<lparr>inlet_flow_lph := 1000\<rparr>)
                @ [one_sample\<lparr>inlet_flow_lph := 2000\<rparr>]"

subsection \<open>Reading a generated frame, and generator states used as inputs\<close>

text \<open>The row of index \<open>i\<close> of the frame that a generator function returned.\<close>

definition row_of :: "(frame \<times> rng) option \<Rightarrow> nat \<Rightarrow> sample option" where
  "row_of res i =
     (case res of
        None \<Rightarrow> None
      | Some (df, g') \<Rightarrow> if i < length (rows df) then Some (rows df ! i) else None)"

text \<open>
  A second call of \<^verbatim>\<open>generate_baseline_data()\<close> in the same run: it starts from the
  generator state that the first call left.
\<close>

definition second_call :: "rng \<Rightarrow> (frame \<times> rng) option" where
  "second_call g =
     (case generate_baseline_data g of None \<Rightarrow> None | Some (df, g') \<Rightarrow> generate_baseline_data g')"

text \<open>Every draw is 0: no noise.\<close>

definition zero_rng :: rng where "zero_rng = \<lparr>draws = (\<lambda>n. 0), pos = 0\<rparr>"

text \<open>The first 60480 draws are 0, the later ones are 1.\<close>

definition step_rng :: rng where
  "step_rng = \<lparr>draws = (\<lambda>n. if n < 60480 then 0 else 1), pos = 0\<rparr>"




text \<open>A frame of one row that already has a column of its own.\<close>

definition small_frame :: frame where
  "small_frame = \<lparr>rows = [one_sample], extra = [(''date'', [Num 1])]\<rparr>"







section \<open>Properties\<close>

subsection \<open>The CIP schedule\<close>

lemma non_overlapping_snoc:
  "non_overlapping (ps @ [p]) = (non_overlapping ps \<and> (\<forall>q \<in> set ps. disjoint_iv q p))"
  by (induction ps) auto

lemma replace_14h_bounds:
  "(ts div DAY) * DAY \<le> replace_14h ts" "replace_14h ts + CIP_DURATION \<le> (ts div DAY) * DAY + DAY"
proof -
  have "0 \<le> ts mod SECOND" "ts mod SECOND < SECOND" by (simp_all add: SECOND_def)
  then show "(ts div DAY) * DAY \<le> replace_14h ts" "replace_14h ts + CIP_DURATION \<le> (ts div DAY) * DAY + DAY"
    by (simp_all add: replace_14h_def CIP_DURATION_def DAY_def HOUR_def MINUTE_def SECOND_def)
qed

lemma day_floor_step:
  assumes "DAY \<le> f"
  shows "(c div DAY) * DAY + DAY \<le> ((c + f) div DAY) * DAY"
proof -
  have pos: "0 < DAY" by (simp add: DAY_def HOUR_def MINUTE_def SECOND_def)
  have "c div DAY + 1 = (c + DAY) div DAY" using pos by simp
  also have "\<dots> \<le> (c + f) div DAY" using assms pos by (intro zdiv_mono1) auto
  finally have "(c div DAY + 1) * DAY \<le> ((c + f) div DAY) * DAY" using pos by simp
  then show ?thesis by (simp add: algebra_simps)
qed

lemma cip_loop_total:
  assumes "0 < f" "\<forall>p \<in> set acc. entry_ok e p"
  shows "\<exists>r. cip_loop e f c acc = Some r \<and> (\<forall>p \<in> set r. entry_ok e p)"
  using assms
proof (induction "nat (e - c)" arbitrary: c acc rule: less_induct)
  case less
  show ?case
  proof (cases "c < e")
    case False
    then show ?thesis using less.prems by (subst cip_loop.simps) simp
  next
    case True
    let ?s = "replace_14h c"
    let ?acc = "if ?s < e then acc @ [(?s, ?s + CIP_DURATION)] else acc"
    have lt: "nat (e - (c + f)) < nat (e - c)" using True less.prems(1) by simp
    have ok: "\<forall>p \<in> set ?acc. entry_ok e p" using less.prems(2) by (auto simp: entry_ok_def)
    from less.hyps[OF lt less.prems(1) ok]
    obtain r where "cip_loop e f (c + f) ?acc = Some r" "\<forall>p \<in> set r. entry_ok e p" by blast
    then show ?thesis using True by (subst cip_loop.simps) (simp add: Let_def)
  qed
qed

lemma cip_loop_disjoint:
  assumes "DAY \<le> f" "non_overlapping acc" "\<forall>p \<in> set acc. snd p \<le> (c div DAY) * DAY"
    "cip_loop e f c acc = Some r"
  shows "non_overlapping r"
  using assms
proof (induction "nat (e - c)" arbitrary: c acc rule: less_induct)
  case less
  have fpos: "0 < f" using less.prems(1) by (simp add: DAY_def HOUR_def MINUTE_def SECOND_def)
  show ?case
  proof (cases "c < e")
    case False
    then show ?thesis using less.prems by (subst (asm) cip_loop.simps) simp
  next
    case True
    let ?s = "replace_14h c"
    let ?acc = "if ?s < e then acc @ [(?s, ?s + CIP_DURATION)] else acc"
    have lt: "nat (e - (c + f)) < nat (e - c)" using True fpos by simp
    have step: "(c div DAY) * DAY + DAY \<le> ((c + f) div DAY) * DAY"
      by (rule day_floor_step[OF less.prems(1)])
    have no: "non_overlapping ?acc"
      using less.prems(2,3) replace_14h_bounds(1)[of c]
      by (auto simp: non_overlapping_snoc disjoint_iv_def)
    have bd: "\<forall>p \<in> set ?acc. snd p \<le> ((c + f) div DAY) * DAY"
    proof -
      have "0 < DAY" by (simp add: DAY_def HOUR_def MINUTE_def SECOND_def)
      then have mono: "(c div DAY) * DAY \<le> ((c + f) div DAY) * DAY" using step by linarith
      define a where "a = (c div DAY) * DAY"
      define b where "b = ((c + f) div DAY) * DAY"
      have ab: "a \<le> b" using mono by (simp add: a_def b_def)
      have old: "\<forall>p \<in> set acc. snd p \<le> a" using less.prems(3) by (simp add: a_def)
      have new: "?s + CIP_DURATION \<le> b"
        using replace_14h_bounds(2)[of c] step by (simp add: b_def)
      have "\<forall>p \<in> set ?acc. snd p \<le> b"
      proof
        fix p assume "p \<in> set ?acc"
        then consider "p \<in> set acc" | "p = (?s, ?s + CIP_DURATION)"
          by (auto split: if_splits)
        then show "snd p \<le> b"
        proof cases
          case 1 then show ?thesis using old ab by force
        next
          case 2 then show ?thesis using new by simp
        qed
      qed
      then show ?thesis by (simp only: b_def)
    qed
    have run: "cip_loop e f (c + f) ?acc = Some r"
      using less.prems(4) True by (subst (asm) cip_loop.simps) (simp add: Let_def)
    show ?thesis by (rule less.hyps[OF lt less.prems(1) no bd run])
  qed
qed


text \<open>
  C8 (as amended). For every start date, horizon and positive recurrence period,
  \<^verbatim>\<open>generate_cip_schedule\<close> returns a schedule; each of its intervals lasts exactly the
  configured 1.5 hours and starts before the horizon end; and when the recurrence
  period is at least one day, the intervals are pairwise non-overlapping.
\<close>

theorem cip_schedule_properties:
  "0 < frequency \<Longrightarrow>
   \<exists>sched. generate_cip_schedule start_date days frequency = Some sched
     \<and> (\<forall>p \<in> set sched. snd p = fst p + CIP_DURATION \<and> fst p < start_date + days * DAY)
     \<and> (DAY \<le> frequency \<longrightarrow> non_overlapping sched)"
proof -
  assume pos: "0 < frequency"
  let ?e = "start_date + days * DAY"
  from cip_loop_total[OF pos, of "[]" ?e start_date]
  obtain r where r: "cip_loop ?e frequency start_date [] = Some r"
    and ok: "\<forall>p \<in> set r. entry_ok ?e p" by auto
  have "DAY \<le> frequency \<longrightarrow> non_overlapping r"
    using cip_loop_disjoint[of frequency "[]" start_date ?e r] r by simp
  then show ?thesis using r ok by (simp add: generate_cip_schedule_def entry_ok_def)
qed

theorem cip_schedule_properties_witness:
  "0 < CIP_FREQUENCY \<and> DAY \<le> CIP_FREQUENCY \<and>
   (\<exists>sched. generate_cip_schedule START_DATE DAYS CIP_FREQUENCY = Some sched
     \<and> (\<forall>p \<in> set sched. snd p = fst p + CIP_DURATION \<and> fst p < START_DATE + DAYS * DAY)
     \<and> non_overlapping sched)"
proof -
  have h: "0 < CIP_FREQUENCY" "DAY \<le> CIP_FREQUENCY"
    by (simp_all add: CIP_FREQUENCY_def DAY_def HOUR_def MINUTE_def SECOND_def)
  show ?thesis using h cip_schedule_properties[OF h(1), of START_DATE DAYS] by simp
qed

text \<open>
  C8 as stated fails for a recurrence period shorter than a day: with a period of
  12 hours and a horizon of one day from midnight, the loop visits 00:00 and 12:00 of
  the same day and places the 14:00 interval twice.
\<close>

theorem cip_schedule_overlap_counterexample:
  "generate_cip_schedule 0 1 (12 * HOUR) =
     Some [(14 * HOUR, 14 * HOUR + CIP_DURATION), (14 * HOUR, 14 * HOUR + CIP_DURATION)]
   \<and> \<not> non_overlapping
         [(14 * HOUR, 14 * HOUR + CIP_DURATION), (14 * HOUR, 14 * HOUR + CIP_DURATION)]"
proof
  show "generate_cip_schedule 0 1 (12 * HOUR) =
     Some [(14 * HOUR, 14 * HOUR + CIP_DURATION), (14 * HOUR, 14 * HOUR + CIP_DURATION)]"
    unfolding generate_cip_schedule_def
    by (subst cip_loop.simps,
        simp add: replace_14h_def DAY_def HOUR_def MINUTE_def SECOND_def CIP_DURATION_def Let_def)+
  show "\<not> non_overlapping
         [(14 * HOUR, 14 * HOUR + CIP_DURATION), (14 * HOUR, 14 * HOUR + CIP_DURATION)]"
    by (simp add: disjoint_iv_def CIP_DURATION_def HOUR_def MINUTE_def SECOND_def)
qed

subsection \<open>Alert detection\<close>

lemma iloc_slice_trailing:
  assumes "12 < length df"
  shows "iloc_slice (- 13) (- 1) df = map (\<lambda>i. df ! i) [length df - 13..<length df - 1]"
proof -
  let ?n = "length df"
  have a: "max (int ?n + - 13) 0 = int (?n - 13)" using assms by simp
  have b: "max (int ?n + - 1) 0 = int (?n - 1)" using assms by simp
  have c: "nat (int (?n - 1) - int (?n - 13)) = 12" using assms by simp
  have "iloc_slice (- 13) (- 1) df = take 12 (drop (?n - 13) df)"
  proof -
    have "iloc_slice (- 13) (- 1) df
        = take (nat (max (int ?n + - 1) 0 - max (int ?n + - 13) 0))
            (drop (nat (max (int ?n + - 13) 0)) df)"
      by (simp add: iloc_slice_def Let_def)
    also have "\<dots> = take 12 (drop (?n - 13) df)"
      by (simp only: a b c nat_int)
    finally show ?thesis .
  qed
  also have "\<dots> = map (\<lambda>i. df ! i) [?n - 13..<?n - 1]"
  proof (rule nth_equalityI)
    show "length (take 12 (drop (?n - 13) df)) = length (map (\<lambda>i. df ! i) [?n - 13..<?n - 1])"
      using assms by simp
  next
    fix i assume "i < length (take 12 (drop (?n - 13) df))"
    then have "i < 12" by simp
    then show "take 12 (drop (?n - 13) df) ! i = map (\<lambda>i. df ! i) [?n - 13..<?n - 1] ! i"
      using assms by simp
  qed
  finally show ?thesis .
qed

lemma series_mean_trailing:
  assumes "12 < length df"
  shows "series_mean (map inlet_flow_lph (iloc_slice (- 13) (- 1) df)) = Num (trailing_mean df)"
proof -
  let ?xs = "map (\<lambda>i. inlet_flow_lph (df ! i)) [length df - 13..<length df - 1]"
  have eq: "map inlet_flow_lph (iloc_slice (- 13) (- 1) df) = ?xs"
    by (simp add: iloc_slice_trailing[OF assms])
  have len: "length ?xs = 12" using assms by simp
  have ne: "?xs \<noteq> []" using len by auto
  have s: "sum_list ?xs = (\<Sum>i = length df - 13..<length df - 1. inlet_flow_lph (df ! i))"
    by (simp only: interv_sum_list_conv_sum_set_nat set_upt)
  show ?thesis unfolding eq series_mean_def trailing_mean_def
    by (simp only: ne len s if_False) simp
qed

text \<open>
  C5. Whenever the latest sample has \<open>wur > 1.85\<close>, \<^verbatim>\<open>detect_alerts\<close> returns exactly
  one alert of the WUR-critical kind, of severity HIGH, and no WUR-elevated alert; and
  on no input does its result hold both a WUR-critical and a WUR-elevated alert.
\<close>

theorem wur_critical_exclusive:
  "(df \<noteq> [] \<and> fgt (wur (last df)) (185 / 100) \<longrightarrow>
      (\<exists>alerts. detect_alerts df = Inr alerts
         \<and> length (filter (\<lambda>a. a_type a = WUR_Critique) alerts) = 1
         \<and> (\<forall>a \<in> set alerts. a_type a = WUR_Critique \<longrightarrow> a_severity a = HIGH)
         \<and> (\<forall>a \<in> set alerts. a_type a \<noteq> WUR_Eleve)))
   \<and> (\<forall>alerts. detect_alerts df = Inr alerts \<longrightarrow>
         \<not> (WUR_Critique \<in> a_type ` set alerts \<and> WUR_Eleve \<in> a_type ` set alerts))"
  by (auto simp: detect_alerts_def Let_def split: if_splits)

theorem wur_critical_exclusive_witness:
  "[one_sample] \<noteq> [] \<and> fgt (wur (last [one_sample])) (185 / 100)
   \<and> (\<exists>alerts. detect_alerts [one_sample] = Inr alerts
         \<and> length (filter (\<lambda>a. a_type a = WUR_Critique) alerts) = 1
         \<and> (\<forall>a \<in> set alerts. a_type a = WUR_Critique \<longrightarrow> a_severity a = HIGH)
         \<and> (\<forall>a \<in> set alerts. a_type a \<noteq> WUR_Eleve))"
proof -
  have h: "[one_sample] \<noteq> [] \<and> fgt (wur (last [one_sample])) (185 / 100)"
    by (simp add: one_sample_def)
  show ?thesis using h wur_critical_exclusive[of "[one_sample]"] by blast
qed

text \<open>
  C4 as stated fails: \<^verbatim>\<open>detect_alerts\<close> itself has no minimum. On a single sample with
  \<open>wur = 1.90\<close> it returns the WUR-critical alert.
\<close>

theorem detect_alerts_short_counterexample:
  "length [one_sample] < 13 \<and> detect_alerts [one_sample] =
     Inr [\<lparr>a_type = WUR_Critique, a_severity = HIGH,
           a_message = (''WUR actuel : {:.2f} L/L (> 1.85)'', Num (19 / 10)),
           a_time = 0\<rparr>]"
  by (simp add: detect_alerts_def one_sample_def Let_def)

text \<open>
  C4 (as amended). With at most twelve samples (a constant of the code) the alert
  section of the dashboard does not call \<^verbatim>\<open>detect_alerts\<close> and shows no alert.
  \<^verbatim>\<open>detect_alerts\<close> itself, on such an input, raises on the empty frame and otherwise
  skips the leak rule only: the WUR and over-rinse rules are evaluated on the latest
  sample.
\<close>

theorem short_history_alerts:
  "length df \<le> 12 \<Longrightarrow>
     alerts_section df = Inr Collecting_info
     \<and> (df = [] \<longrightarrow> detect_alerts df = Inl IndexError)
     \<and> (df \<noteq> [] \<longrightarrow>
          (\<exists>alerts. detect_alerts df = Inr alerts
             \<and> Fuite_Suspectee \<notin> a_type ` set alerts
             \<and> (WUR_Critique \<in> a_type ` set alerts \<longleftrightarrow> fgt (wur (last df)) (185 / 100))
             \<and> (WUR_Eleve \<in> a_type ` set alerts \<longleftrightarrow>
                  \<not> fgt (wur (last df)) (185 / 100) \<and> fgt (wur (last df)) (170 / 100))
             \<and> (Sur_rincage \<in> a_type ` set alerts \<longleftrightarrow> rinse_flow_lph (last df) > 250)))"
  by (auto simp: detect_alerts_def alerts_section_def Let_def split: if_splits)

theorem short_history_alerts_witness:
  "length [one_sample] \<le> 12 \<and> [one_sample] \<noteq> []
   \<and> alerts_section [one_sample] = Inr Collecting_info
   \<and> (\<exists>alerts. detect_alerts [one_sample] = Inr alerts
          \<and> Fuite_Suspectee \<notin> a_type ` set alerts
          \<and> WUR_Critique \<in> a_type ` set alerts)"
proof -
  have h: "length [one_sample] \<le> 12" by simp
  have w: "fgt (wur (last [one_sample])) (185 / 100)" by (simp add: one_sample_def)
  show ?thesis using short_history_alerts[OF h] w by auto
qed

text \<open>
  C6. With more than twelve samples, \<^verbatim>\<open>detect_alerts\<close> compares the latest inlet flow
  with the mean of the twelve samples immediately before it: the result holds a
  suspected-leak alert exactly when the percentage deviation exceeds 15, that alert is
  HIGH and its message carries the deviation. A latest inlet flow of 2000 against a
  trailing mean of 1000 gives a HIGH suspected-leak alert reporting 100.
\<close>

theorem suspected_leak_rule:
  "12 < length df \<Longrightarrow>
   \<exists>alerts. detect_alerts df = Inr alerts
     \<and> ((\<exists>a \<in> set alerts. a_type a = Fuite_Suspectee) \<longleftrightarrow> fgt (leak_deviation df) 15)
     \<and> (\<forall>a \<in> set alerts. a_type a = Fuite_Suspectee \<longrightarrow>
           a_severity a = HIGH \<and> snd (a_message a) = leak_deviation df)
     \<and> (inlet_flow_lph (last df) = 2000 \<and> trailing_mean df = 1000 \<longrightarrow>
          (\<exists>a \<in> set alerts. a_type a = Fuite_Suspectee \<and> a_severity a = HIGH
             \<and> snd (a_message a) = Num 100))"
proof -
  assume len: "12 < length df"
  then have ne: "df \<noteq> []" by auto
  have ex: "inlet_flow_lph (last df) = 2000 \<and> trailing_mean df = 1000 \<longrightarrow>
            leak_deviation df = Num 100"
    by (simp add: leak_deviation_def fdiv_def)
  obtain alerts where al: "detect_alerts df = Inr alerts"
    and iff: "(\<exists>a \<in> set alerts. a_type a = Fuite_Suspectee) \<longleftrightarrow> fgt (leak_deviation df) 15"
    and hi: "\<forall>a \<in> set alerts. a_type a = Fuite_Suspectee \<longrightarrow>
           a_severity a = HIGH \<and> snd (a_message a) = leak_deviation df"
    using len ne
    by (simp add: detect_alerts_def Let_def series_mean_trailing[OF len] leak_deviation_def)
  have "inlet_flow_lph (last df) = 2000 \<and> trailing_mean df = 1000 \<longrightarrow>
          (\<exists>a \<in> set alerts. a_type a = Fuite_Suspectee \<and> a_severity a = HIGH
             \<and> snd (a_message a) = Num 100)"
  proof
    assume h: "inlet_flow_lph (last df) = 2000 \<and> trailing_mean df = 1000"
    then have d: "leak_deviation df = Num 100" using ex by simp
    then have "fgt (leak_deviation df) 15" by simp
    then obtain a where "a \<in> set alerts" "a_type a = Fuite_Suspectee" using iff by blast
    then show "\<exists>a \<in> set alerts. a_type a = Fuite_Suspectee \<and> a_severity a = HIGH
             \<and> snd (a_message a) = Num 100" using hi d by auto
  qed
  then show ?thesis using al iff hi by blast
qed

theorem suspected_leak_rule_witness:
  "12 < length leak_frame \<and> inlet_flow_lph (last leak_frame) = 2000
   \<and> trailing_mean leak_frame = 1000
   \<and> (\<exists>alerts. detect_alerts leak_frame = Inr alerts
         \<and> (\<exists>a \<in> set alerts. a_type a = Fuite_Suspectee \<and> a_severity a = HIGH
                \<and> snd (a_message a) = Num 100))"
proof -
  have len: "12 < length leak_frame" by (simp add: leak_frame_def)
  have la: "inlet_flow_lph (last leak_frame) = 2000" by (simp add: leak_frame_def)
  have "\<forall>i \<in> {0..<12}. inlet_flow_lph (leak_frame ! i) = 1000"
    by (simp add: leak_frame_def nth_append)
  then have "(\<Sum>i = 0..<12. inlet_flow_lph (leak_frame ! i)) = (\<Sum>i = 0..<(12::nat). 1000)"
    by (intro sum.cong) auto
  then have tm: "trailing_mean leak_frame = 1000"
    by (simp add: trailing_mean_def leak_frame_def)
  show ?thesis using len la tm suspected_leak_rule[OF len] by blast
qed

subsection \<open>The generators\<close>

lemmas time_defs = DAY_def HOUR_def MINUTE_def SECOND_def CIP_DURATION_def START_DATE_def
  INTERVAL_MINUTES_def
lemmas flow_defs = PRODUCTION_NOMINAL_def PRODUCTION_NIGHT_FACTOR_def INLET_FLOW_BASE_def
  TREATMENT_LOSS_PCT_def RINSE_FLOW_BASE_def CIP_FLOW_RATE_def CONDUCTIVITY_MEAN_def
  TURBIDITY_MEAN_def TEMPERATURE_MEAN_def
lemmas step_defs = baseline_step_def add_noise_def normal_def Let_def split_def

lemma configured_schedule_eq:
  "generate_cip_schedule START_DATE DAYS CIP_FREQUENCY = Some configured_schedule"
  unfolding generate_cip_schedule_def configured_schedule_def
  by (subst cip_loop.simps,
      simp add: replace_14h_def time_defs Let_def DAYS_def CIP_FREQUENCY_def)+

lemma total_points: "TOTAL_POINTS = 8640"
  by (simp add: TOTAL_POINTS_def DAYS_def INTERVAL_MINUTES_def)

lemma baseline_step_pos: "snd (baseline_step sched ts g) = g\<lparr>pos := pos g + 7\<rparr>"
  by (simp add: step_defs)

lemma baseline_step_draws:
  "fst (baseline_step sched ts (g\<lparr>pos := p\<rparr>)) =
   fst (baseline_step sched ts \<lparr>draws = (\<lambda>k. draws g (p + k)), pos = 0\<rparr>)"
  by (simp add: step_defs)

lemma baseline_loop_length: "length (fst (baseline_loop sched tss g)) = length tss"
  by (induction tss arbitrary: g) (simp_all add: split_def Let_def)

lemma baseline_loop_pos:
  "snd (baseline_loop sched tss g) = g\<lparr>pos := pos g + 7 * length tss\<rparr>"
proof (induction tss arbitrary: g)
  case Nil
  then show ?case by simp
next
  case (Cons ts tss)
  show ?case
    by (simp add: split_def Let_def Cons.IH baseline_step_pos)
qed

lemma baseline_loop_nth:
  "i < length tss \<Longrightarrow>
   fst (baseline_loop sched tss g) ! i = fst (baseline_step sched (tss ! i) (g\<lparr>pos := pos g + 7 * i\<rparr>))"
proof (induction tss arbitrary: g i)
  case Nil
  then show ?case by simp
next
  case (Cons ts tss)
  show ?case
  proof (cases i)
    case 0
    then show ?thesis by (simp add: split_def Let_def)
  next
    case (Suc j)
    then have "j < length tss" using Cons.prems by simp
    from Cons.IH[OF this, of "snd (baseline_step sched ts g)"]
    show ?thesis using Suc
      by (simp add: split_def Let_def baseline_step_pos add.commute add.left_commute)
  qed
qed

lemma generate_baseline_data_eq:
  "generate_baseline_data g =
     Some (\<lparr>rows = map (baseline_row g) [0..<TOTAL_POINTS], extra = []\<rparr>,
           g\<lparr>pos := pos g + 7 * TOTAL_POINTS\<rparr>)"
proof -
  let ?l = "baseline_loop configured_schedule timestamps g"
  have len: "length timestamps = TOTAL_POINTS" by (simp add: timestamps_def)
  have r: "fst ?l = map (baseline_row g) [0..<TOTAL_POINTS]"
  proof (rule nth_equalityI)
    show "length (fst ?l) = length (map (baseline_row g) [0..<TOTAL_POINTS])"
      by (simp add: baseline_loop_length len)
  next
    fix i assume "i < length (fst ?l)"
    then have i: "i < TOTAL_POINTS" by (simp add: baseline_loop_length len)
    then have "fst ?l ! i = fst (baseline_step configured_schedule (timestamps ! i) (g\<lparr>pos := pos g + 7 * i\<rparr>))"
      by (simp add: baseline_loop_nth len)
    also have "timestamps ! i = START_DATE + INTERVAL_MINUTES * MINUTE * int i"
      using i by (simp add: timestamps_def)
    finally show "fst ?l ! i = map (baseline_row g) [0..<TOTAL_POINTS] ! i"
      using i by (simp add: baseline_row_def)
  qed
  have p: "snd ?l = g\<lparr>pos := pos g + 7 * TOTAL_POINTS\<rparr>"
    by (simp add: baseline_loop_pos len)
  show ?thesis
    by (simp add: generate_baseline_data_def configured_schedule_eq split_def r p)
qed

lemma rows_loc_update: "rows (loc_update m f df) = map (row_update m f) (rows df)"
  and extra_loc_update: "extra (loc_update m f df) = extra df"
  by (simp_all add: loc_update_def)

lemma loc_update_frame:
  "loc_update m f \<lparr>rows = rs, extra = ex\<rparr> = \<lparr>rows = map (row_update m f) rs, extra = ex\<rparr>"
  by (simp add: loc_update_def)

lemma generate_anomaly_data_eq:
  "generate_anomaly_data g =
     Some (\<lparr>rows = map (anomaly_row \<circ> baseline_row g) [0..<TOTAL_POINTS], extra = []\<rparr>,
           g\<lparr>pos := pos g + 7 * TOTAL_POINTS\<rparr>)"
  by (simp add: generate_anomaly_data_def generate_baseline_data_eq Let_def loc_update_frame
      anomaly_row_def o_assoc)

lemma generate_optimized_data_eq:
  "generate_optimized_data g =
     Some (\<lparr>rows = map (optimized_row \<circ> baseline_row g) [0..<TOTAL_POINTS], extra = []\<rparr>,
           g\<lparr>pos := pos g + 7 * TOTAL_POINTS\<rparr>)"
  by (simp add: generate_optimized_data_def generate_baseline_data_eq Let_def loc_update_frame
      optimized_row_def o_assoc)

lemmas window_defs = leak_start_def leak_end_def overrinse_start_def overrinse_end_def
  unplanned_cip_start_def unplanned_cip_end_def
lemmas eval_defs = baseline_row_def step_defs configured_schedule_def hour_of_def get_shift_def
  time_defs flow_defs py_round_def round_half_even_def






lemma row_update_hit:
  "s \<le> timestamp r \<and> timestamp r < e \<Longrightarrow> row_update (in_window s e) f r = f r"
  by (simp add: row_update_def in_window_def)


lemma anomaly_row_overrinse:
  "overrinse_start \<le> timestamp b \<and> timestamp b < overrinse_end \<Longrightarrow>
   rinse_flow_lph (anomaly_row b) = rinse_flow_lph b * (150 / 100)
   \<and> inlet_flow_lph (anomaly_row b) = inlet_flow_lph b + rinse_flow_lph (anomaly_row b) * (3 / 10)"
  by (simp add: anomaly_row_def row_update_def all_rows_def in_window_def window_defs time_defs)

lemma row_of_baseline:
  "row_of (generate_baseline_data g) i = (if i < TOTAL_POINTS then Some (baseline_row g i) else None)"
  by (simp add: row_of_def generate_baseline_data_eq)

lemma row_of_anomaly:
  "row_of (generate_anomaly_data g) i =
     (if i < TOTAL_POINTS then Some (anomaly_row (baseline_row g i)) else None)"
  by (simp add: row_of_def generate_anomaly_data_eq)





lemma baseline_step_next_draws:
  assumes "\<forall>k < 7. draws g1 (pos g1 + k) = draws g2 (pos g2 + k)"
  shows "fst (baseline_step sched ts g1) = fst (baseline_step sched ts g2)"
proof -
  have d: "draws g1 (pos g1) = draws g2 (pos g2)"
    "draws g1 (Suc (pos g1)) = draws g2 (Suc (pos g2))"
    "draws g1 (Suc (Suc (pos g1))) = draws g2 (Suc (Suc (pos g2)))"
    "draws g1 (Suc (Suc (Suc (pos g1)))) = draws g2 (Suc (Suc (Suc (pos g2))))"
    "draws g1 (Suc (Suc (Suc (Suc (pos g1))))) = draws g2 (Suc (Suc (Suc (Suc (pos g2)))))"
    "draws g1 (Suc (Suc (Suc (Suc (Suc (pos g1)))))) = draws g2 (Suc (Suc (Suc (Suc (Suc (pos g2))))))"
    "draws g1 (Suc (Suc (Suc (Suc (Suc (Suc (pos g1))))))) = draws g2 (Suc (Suc (Suc (Suc (Suc (Suc (pos g2)))))))"
    using assms[rule_format, of 0] assms[rule_format, of 1] assms[rule_format, of 2]
      assms[rule_format, of 3] assms[rule_format, of 4] assms[rule_format, of 5]
      assms[rule_format, of 6]
    by (simp_all add: eval_nat_numeral)
  show ?thesis by (simp add: step_defs d)
qed

lemma baseline_row_next_draws:
  assumes "\<forall>k < 7 * TOTAL_POINTS. draws g1 (pos g1 + k) = draws g2 (pos g2 + k)"
    and "i < TOTAL_POINTS"
  shows "baseline_row g1 i = baseline_row g2 i"
proof -
  have "\<forall>k < 7. draws g1 (pos g1 + 7 * i + k) = draws g2 (pos g2 + 7 * i + k)"
  proof (intro allI impI)
    fix k :: nat assume "k < 7"
    then have "7 * i + k < 7 * TOTAL_POINTS" using assms(2) by simp
    from assms(1)[rule_format, OF this] show "draws g1 (pos g1 + 7 * i + k) = draws g2 (pos g2 + 7 * i + k)"
      by (simp add: add.assoc)
  qed
  then show ?thesis
    unfolding baseline_row_def by (intro baseline_step_next_draws) simp
qed

text \<open>
  C2 (as amended). \<^verbatim>\<open>generate_baseline_data\<close> always returns; it consumes exactly
  \<open>7 * TOTAL_POINTS = 60480\<close> draws, and its frame is determined by those draws alone: two
  calls that read the same 60480 draws return the same frame, field for field. (Two
  runs of the script, each seeded once at import, are such calls.)
\<close>

theorem baseline_same_draws:
  "(\<forall>k < 7 * TOTAL_POINTS. draws g1 (pos g1 + k) = draws g2 (pos g2 + k)) \<Longrightarrow>
   \<exists>df. generate_baseline_data g1 = Some (df, g1\<lparr>pos := pos g1 + 7 * TOTAL_POINTS\<rparr>)
      \<and> generate_baseline_data g2 = Some (df, g2\<lparr>pos := pos g2 + 7 * TOTAL_POINTS\<rparr>)"
proof -
  assume a: "\<forall>k < 7 * TOTAL_POINTS. draws g1 (pos g1 + k) = draws g2 (pos g2 + k)"
  have "map (baseline_row g1) [0..<TOTAL_POINTS] = map (baseline_row g2) [0..<TOTAL_POINTS]"
    using baseline_row_next_draws[OF a] by simp
  then show ?thesis by (simp add: generate_baseline_data_eq)
qed

theorem baseline_same_draws_witness:
  "map (\<lambda>k. draws zero_rng (pos zero_rng + k)) [0..<7 * TOTAL_POINTS]
     = map (\<lambda>k. draws step_rng (pos step_rng + k)) [0..<7 * TOTAL_POINTS]
   \<and> (\<exists>df. generate_baseline_data zero_rng = Some (df, zero_rng\<lparr>pos := pos zero_rng + 7 * TOTAL_POINTS\<rparr>)
      \<and> generate_baseline_data step_rng = Some (df, step_rng\<lparr>pos := pos step_rng + 7 * TOTAL_POINTS\<rparr>))"
proof -
  have h: "\<forall>k < 7 * TOTAL_POINTS. draws zero_rng (pos zero_rng + k) = draws step_rng (pos step_rng + k)"
    by (simp add: zero_rng_def step_rng_def total_points)
  then have m: "map (\<lambda>k. draws zero_rng (pos zero_rng + k)) [0..<7 * TOTAL_POINTS]
     = map (\<lambda>k. draws step_rng (pos step_rng + k)) [0..<7 * TOTAL_POINTS]"
    by simp
  show ?thesis using m baseline_same_draws[OF h] by blast
qed

text \<open>
  C2 as stated fails for two calls within one run: the generator is seeded once at
  import, and a second call reads the draws after those of the first. With draws that
  are 0 for the first call and 1 afterwards, the first production is 700 in the first
  call and 721 in the second.
\<close>

theorem second_call_counterexample:
  "generate_baseline_data step_rng \<noteq> None
   \<and> map_option production_lph (row_of (generate_baseline_data step_rng) 0) = Some 700
   \<and> map_option production_lph (row_of (second_call step_rng) 0) = Some 721"
proof -
  have s: "second_call step_rng = generate_baseline_data (step_rng\<lparr>pos := 60480\<rparr>)"
    by (simp add: second_call_def generate_baseline_data_eq total_points step_rng_def)
  have a: "production_lph (baseline_row step_rng 0) = 700"
    by (simp add: eval_defs step_rng_def)
  have b: "production_lph (baseline_row (step_rng\<lparr>pos := 60480\<rparr>) 0) = 721"
    by (simp add: eval_defs step_rng_def)
  show ?thesis
    by (simp add: s row_of_baseline total_points a b) (simp add: generate_baseline_data_eq)
qed

text \<open>
  C7 (as amended). For every sample in the over-rinse window, the anomaly frame has the
  baseline rinse flow multiplied by 1.5, and the baseline inlet flow increased by 0.3
  times the new rinse flow (the assignment reads the column it has just multiplied).
\<close>

theorem overrinse_window:
  "\<exists>dfb dfa g'. generate_baseline_data g = Some (dfb, g')
     \<and> generate_anomaly_data g = Some (dfa, g')
     \<and> length (rows dfa) = length (rows dfb)
     \<and> (\<forall>i < length (rows dfb).
          overrinse_start \<le> timestamp (rows dfb ! i) \<and> timestamp (rows dfb ! i) < overrinse_end \<longrightarrow>
            rinse_flow_lph (rows dfa ! i) = rinse_flow_lph (rows dfb ! i) * (150 / 100)
            \<and> inlet_flow_lph (rows dfa ! i) =
                inlet_flow_lph (rows dfb ! i) + rinse_flow_lph (rows dfa ! i) * (3 / 10))"
  by (simp add: generate_baseline_data_eq generate_anomaly_data_eq anomaly_row_overrinse)

lemma zero_row_6156: "baseline_row zero_rng 6156 =
   \<lparr>timestamp = overrinse_start, scenario = baseline, inlet_flow_lph = 1450,
     post_treatment_flow_lph = 12325 / 10, rinse_flow_lph = 185, cip_flow_lph = 0,
     production_lph = 1000, conductivity_uS_cm = 245, turbidity_NTU = 6 / 10,
     temperature_C = 22, cip_active = 0, shift = morning, line_status = running,
     wur = Num (145 / 100)\<rparr>"
  by (simp add: eval_defs zero_rng_def overrinse_start_def)

text \<open>
  C7 as stated fails. Without noise, the sample at the start of the over-rinse window
  has a rinse flow of 185 and an inlet flow of 1450 in the baseline; in the anomaly
  frame the rinse flow is 277.5 and the inlet flow is \<open>1450 + 0.3 * 277.5 = 1533.25\<close>, not
  \<open>1450 + 0.3 * (277.5 - 185) = 1477.75\<close>.
\<close>

theorem overrinse_inlet_counterexample:
  "map_option timestamp (row_of (generate_baseline_data zero_rng) 6156) = Some overrinse_start
   \<and> overrinse_start < overrinse_end
   \<and> map_option rinse_flow_lph (row_of (generate_baseline_data zero_rng) 6156) = Some 185
   \<and> map_option inlet_flow_lph (row_of (generate_baseline_data zero_rng) 6156) = Some 1450
   \<and> map_option rinse_flow_lph (row_of (generate_anomaly_data zero_rng) 6156) = Some (2775 / 10)
   \<and> map_option inlet_flow_lph (row_of (generate_anomaly_data zero_rng) 6156) = Some (153325 / 100)
   \<and> (153325 / 100 :: real) \<noteq> 1450 + (3 / 10) * (2775 / 10 - 185)"
proof -
  have w: "overrinse_start \<le> timestamp (baseline_row zero_rng 6156)
           \<and> timestamp (baseline_row zero_rng 6156) < overrinse_end"
    by (simp add: zero_row_6156) (simp add: window_defs time_defs)
  from anomaly_row_overrinse[OF w]
  have a: "rinse_flow_lph (anomaly_row (baseline_row zero_rng 6156)) = 2775 / 10"
    "inlet_flow_lph (anomaly_row (baseline_row zero_rng 6156)) = 153325 / 100"
    by (simp_all add: zero_row_6156)
  have lt: "overrinse_start < overrinse_end" by (simp add: window_defs time_defs)
  show ?thesis using a lt
    by (simp add: row_of_baseline row_of_anomaly total_points zero_row_6156)
qed

theorem overrinse_window_witness:
  "\<exists>dfb dfa g'. generate_baseline_data zero_rng = Some (dfb, g')
     \<and> generate_anomaly_data zero_rng = Some (dfa, g')
     \<and> 6156 < length (rows dfb)
     \<and> overrinse_start \<le> timestamp (rows dfb ! 6156) \<and> timestamp (rows dfb ! 6156) < overrinse_end
     \<and> rinse_flow_lph (rows dfa ! 6156) = rinse_flow_lph (rows dfb ! 6156) * (150 / 100)
     \<and> inlet_flow_lph (rows dfa ! 6156) =
           inlet_flow_lph (rows dfb ! 6156) + rinse_flow_lph (rows dfa ! 6156) * (3 / 10)"
proof -
  from overrinse_window[of zero_rng] obtain dfb dfa g' where
    b: "generate_baseline_data zero_rng = Some (dfb, g')" and
    a: "generate_anomaly_data zero_rng = Some (dfa, g')" and
    r: "\<forall>i < length (rows dfb).
          overrinse_start \<le> timestamp (rows dfb ! i) \<and> timestamp (rows dfb ! i) < overrinse_end \<longrightarrow>
            rinse_flow_lph (rows dfa ! i) = rinse_flow_lph (rows dfb ! i) * (150 / 100)
            \<and> inlet_flow_lph (rows dfa ! i) =
                inlet_flow_lph (rows dfb ! i) + rinse_flow_lph (rows dfa ! i) * (3 / 10)"
    by blast
  have len: "6156 < length (rows dfb)"
    using b by (auto simp: generate_baseline_data_eq total_points)
  have "rows dfb ! 6156 = baseline_row zero_rng 6156"
    using b by (auto simp: generate_baseline_data_eq total_points)
  then have t: "timestamp (rows dfb ! 6156) = overrinse_start"
    by (simp add: zero_row_6156)
  have w: "overrinse_start \<le> timestamp (rows dfb ! 6156) \<and> timestamp (rows dfb ! 6156) < overrinse_end"
    by (simp add: t) (simp add: window_defs time_defs)
  show ?thesis using b a len w r by blast
qed











subsection \<open>The optimized scenario\<close>















subsection \<open>Validation and export\<close>

lemma validate_rows: "rows (snd (validate_dataset df name)) = rows df"
  by (simp add: validate_dataset_def Let_def set_column_def)

lemma validate_extra:
  "extra (snd (validate_dataset df name)) =
     AList.update ''balance_error''
       (map (\<lambda>r. fdiv \<bar>inlet_flow_lph r
                        - (post_treatment_flow_lph r + rinse_flow_lph r + cip_flow_lph r)\<bar>
                      (inlet_flow_lph r)) (rows df))
       (AList.update ''total_out''
          (map (\<lambda>r. Num (post_treatment_flow_lph r + rinse_flow_lph r + cip_flow_lph r)) (rows df))
          (extra df))"
  by (simp add: validate_dataset_def Let_def set_column_def zip_map2 zip_same_conv_map o_def)

lemma validate_columns:
  "extra df = [] \<Longrightarrow>
   columns (snd (validate_dataset df name)) = base_columns @ [''total_out'', ''balance_error'']"
  by (simp add: columns_def validate_extra)

text \<open>
  C10. \<^verbatim>\<open>validate_dataset\<close> leaves the rows of its frame as they are and assigns two
  columns, \<open>total_out\<close> and \<open>balance_error\<close>; every other added column is unchanged; on a
  generated frame the columns are then the fourteen generated ones followed by these
  two. \<^verbatim>\<open>main\<close> exports the three frames after validating them, so each file has the
  two columns.
\<close>

theorem validate_dataset_adds_columns:
  "rows (snd (validate_dataset df name)) = rows df
   \<and> map_of (extra (snd (validate_dataset df name))) ''total_out'' =
       Some (map (\<lambda>r. Num (post_treatment_flow_lph r + rinse_flow_lph r + cip_flow_lph r)) (rows df))
   \<and> map_of (extra (snd (validate_dataset df name))) ''balance_error'' =
       Some (map (\<lambda>r. fdiv \<bar>inlet_flow_lph r
                          - (post_treatment_flow_lph r + rinse_flow_lph r + cip_flow_lph r)\<bar>
                        (inlet_flow_lph r)) (rows df))
   \<and> (\<forall>k. k \<noteq> ''total_out'' \<and> k \<noteq> ''balance_error'' \<longrightarrow>
          map_of (extra (snd (validate_dataset df name))) k = map_of (extra df) k)
   \<and> (extra df = [] \<longrightarrow>
        columns (snd (validate_dataset df name)) = base_columns @ [''total_out'', ''balance_error''])
   \<and> (\<exists>dfb g1 dfa g2 dfo g3 fs'.
         generate_baseline_data g = Some (dfb, g1)
         \<and> generate_anomaly_data g1 = Some (dfa, g2)
         \<and> generate_optimized_data g2 = Some (dfo, g3)
         \<and> main g fs = Some (fs', g3)
         \<and> fs' ''baseline.csv'' = Some (base_columns @ [''total_out'', ''balance_error''],
                                        snd (validate_dataset dfb ''baseline''))
         \<and> fs' ''anomaly.csv'' = Some (base_columns @ [''total_out'', ''balance_error''],
                                       snd (validate_dataset dfa ''anomaly''))
         \<and> fs' ''optimized.csv'' = Some (base_columns @ [''total_out'', ''balance_error''],
                                         snd (validate_dataset dfo ''optimized'')))"
proof -
  have m: "\<exists>dfb g1 dfa g2 dfo g3 fs'.
         generate_baseline_data g = Some (dfb, g1)
         \<and> generate_anomaly_data g1 = Some (dfa, g2)
         \<and> generate_optimized_data g2 = Some (dfo, g3)
         \<and> main g fs = Some (fs', g3)
         \<and> fs' ''baseline.csv'' = Some (base_columns @ [''total_out'', ''balance_error''],
                                        snd (validate_dataset dfb ''baseline''))
         \<and> fs' ''anomaly.csv'' = Some (base_columns @ [''total_out'', ''balance_error''],
                                       snd (validate_dataset dfa ''anomaly''))
         \<and> fs' ''optimized.csv'' = Some (base_columns @ [''total_out'', ''balance_error''],
                                         snd (validate_dataset dfo ''optimized''))"
    by (simp add: main_def generate_baseline_data_eq generate_anomaly_data_eq
        generate_optimized_data_eq split_def Let_def export_to_csv_def validate_columns)
  show ?thesis
    using m by (simp add: validate_rows validate_columns) (simp add: validate_extra update_conv')
qed

theorem validate_dataset_adds_columns_witness:
  "''date'' \<noteq> ''total_out'' \<and> ''date'' \<noteq> ''balance_error''
   \<and> rows (snd (validate_dataset small_frame ''baseline'')) = rows small_frame
   \<and> map_of (extra (snd (validate_dataset small_frame ''baseline''))) ''date''
       = map_of (extra small_frame) ''date''
   \<and> map_of (extra (snd (validate_dataset small_frame ''baseline''))) ''total_out'' = Some [Num 1315]
   \<and> extra \<lparr>rows = [one_sample], extra = []\<rparr> = []
   \<and> columns (snd (validate_dataset \<lparr>rows = [one_sample], extra = []\<rparr> ''baseline''))
       = base_columns @ [''total_out'', ''balance_error'']"
proof -
  have k: "''date'' \<noteq> ''total_out'' \<and> ''date'' \<noteq> ''balance_error''" by simp
  have t: "map (\<lambda>r. Num (post_treatment_flow_lph r + rinse_flow_lph r + cip_flow_lph r))
             (rows small_frame) = [Num 1315]"
    by (simp add: small_frame_def one_sample_def)
  have e: "extra \<lparr>rows = [one_sample], extra = []\<rparr> = []" by simp
  show ?thesis
    using k t e validate_dataset_adds_columns[of small_frame "''baseline''" zero_rng Map.empty]
      validate_dataset_adds_columns[of "\<lparr>rows = [one_sample], extra = []\<rparr>" "''baseline''" zero_rng Map.empty]
    by (simp only:) simp
qed

end
